theory Spec2Isabelle
  imports Complex_Main
begin

section \<open>JavaScript completions: values, thrown errors, effects\<close>

text \<open>
  Both services are asynchronous TypeScript. An \<^verbatim>\<open>async\<close> function either
  resolves with a value or rejects with a thrown error, and on the way it performs
  effects (timers, console output, network requests, callback invocations). A run is
  modelled as a function from the state before to the completion and the state after:
  \<open>Inr v\<close> is a normal return of \<open>v\<close>, \<open>Inl e\<close> is the error \<open>e\<close> propagating to
  the caller. An \<^verbatim>\<open>await\<close> is sequencing; \<^verbatim>\<open>try { ... } catch (error) { ... }\<close> is
  \<open>try_catch\<close>, which keeps the effects performed before the throw.
\<close>

datatype js_error = JsError (err_name: string) (err_message: string)

type_synonym ('s, 'a) prog = "'s \<Rightarrow> (js_error + 'a) \<times> 's"

definition ret :: "'a \<Rightarrow> ('s, 'a) prog" where
  "ret x = (\<lambda>s. (Inr x, s))"

definition and_then :: "('s, 'a) prog \<Rightarrow> ('a \<Rightarrow> ('s, 'b) prog) \<Rightarrow> ('s, 'b) prog" where
  "and_then m k = (\<lambda>s. case m s of (Inl e, s') \<Rightarrow> (Inl e, s') | (Inr x, s') \<Rightarrow> k x s')"

definition try_catch :: "('s, 'a) prog \<Rightarrow> (js_error \<Rightarrow> ('s, 'a) prog) \<Rightarrow> ('s, 'a) prog" where
  "try_catch m handler = (\<lambda>s. case m s of (Inl e, s') \<Rightarrow> handler e s' | (Inr x, s') \<Rightarrow> (Inr x, s'))"

text \<open>A pure step that may throw (a property read, a method call on a value).\<close>

definition lift :: "js_error + 'a \<Rightarrow> ('s, 'a) prog" where
  "lift r = (\<lambda>s. (r, s))"

text \<open>
  \<^verbatim>\<open>xs[i]\<close> on a JavaScript array: the element, or \<^verbatim>\<open>undefined\<close> (here \<open>None\<close>)
  when the index is not one of the array's.
\<close>

definition js_index :: "'a list \<Rightarrow> int \<Rightarrow> 'a option" where
  "js_index xs i = (if 0 \<le> i \<and> i < int (length xs) then Some (xs ! nat i) else None)"

text \<open>\<^verbatim>\<open>xs.join(sep)\<close> on an array of strings.\<close>

fun join :: "string \<Rightarrow> string list \<Rightarrow> string" where
  "join sep [] = []"
| "join sep [x] = x"
| "join sep (x # y # ys) = x @ sep @ join sep (y # ys)"

text \<open>A number interpolated into a template literal; the traits are whole numbers.\<close>

fun digits :: "nat \<Rightarrow> string" where
  "digits n = (if n < 10 then [char_of (48 + n)] else digits (n div 10) @ [char_of (48 + n mod 10)])"

definition number_to_string :: "int \<Rightarrow> string" where
  "number_to_string i = (if i < 0 then CHR ''-'' # digits (nat (- i)) else digits (nat i))"


text \<open>
  A value as \<^verbatim>\<open>JSON.parse\<close> and property reads produce it. The connector types such
  values as \<^verbatim>\<open>any\<close>, so every read is modelled with what JavaScript does on each
  kind of value.
\<close>

datatype jsval =
    Undefined
  | Null
  | JBool bool
  | JNum real
  | JStr string
  | JArr "jsval list"
  | JObj "(string \<times> jsval) list"

text \<open>
  \<^verbatim>\<open>v.k\<close>: reading a property of \<^verbatim>\<open>undefined\<close> or \<^verbatim>\<open>null\<close> throws a TypeError; an
  object gives the field or \<^verbatim>\<open>undefined\<close>; a boolean, number, string or array gives
  \<^verbatim>\<open>undefined\<close> for every name the services read (\<^verbatim>\<open>type\<close>, \<^verbatim>\<open>data\<close>, \<^verbatim>\<open>roomId\<close>,
  \<^verbatim>\<open>user\<close>, \<^verbatim>\<open>userId\<close>, \<^verbatim>\<open>username\<close>, \<^verbatim>\<open>success\<close>, \<^verbatim>\<open>error\<close>, \<^verbatim>\<open>rooms\<close>, \<^verbatim>\<open>id\<close>,
  \<^verbatim>\<open>name\<close>: none is a property of a built-in prototype of these values).
\<close>

definition get_prop :: "jsval \<Rightarrow> string \<Rightarrow> js_error + jsval" where
  "get_prop v k =
     (case v of
        Undefined \<Rightarrow> Inl (JsError ''TypeError'' (''Cannot read properties of undefined, reading '' @ k))
      | Null \<Rightarrow> Inl (JsError ''TypeError'' (''Cannot read properties of null, reading '' @ k))
      | JObj fields \<Rightarrow> Inr (case map_of fields k of Some x \<Rightarrow> x | None \<Rightarrow> Undefined)
      | _ \<Rightarrow> Inr Undefined)"

text \<open>Truthiness, as \<^verbatim>\<open>!v\<close> and \<^verbatim>\<open>a || b\<close> test it.\<close>

definition truthy :: "jsval \<Rightarrow> bool" where
  "truthy v =
     (case v of
        Undefined \<Rightarrow> False
      | Null \<Rightarrow> False
      | JBool b \<Rightarrow> b
      | JNum n \<Rightarrow> n \<noteq> 0
      | JStr s \<Rightarrow> s \<noteq> []
      | JArr _ \<Rightarrow> True
      | JObj _ \<Rightarrow> True)"

text \<open>\<^verbatim>\<open>a || b\<close> on values.\<close>

definition js_or :: "jsval \<Rightarrow> jsval \<Rightarrow> jsval" where
  "js_or a b = (if truthy a then a else b)"



text \<open>
  A JSON text denotes one of these values; \<^verbatim>\<open>undefined\<close> is not among them.
  \<open>of_json\<close> is the JavaScript value that \<^verbatim>\<open>JSON.parse\<close> and \<^verbatim>\<open>response.json()\<close>
  build from it.
\<close>

datatype json =
    JsonNull
  | JsonBool bool
  | JsonNum real
  | JsonStr string
  | JsonArr "json list"
  | JsonObj "(string \<times> json) list"

primrec of_json :: "json \<Rightarrow> jsval" where
  "of_json JsonNull = Null"
| "of_json (JsonBool b) = JBool b"
| "of_json (JsonNum n) = JNum n"
| "of_json (JsonStr s) = JStr s"
| "of_json (JsonArr xs) = JArr (map of_json xs)"
| "of_json (JsonObj fields) = JObj (map (map_prod id of_json) fields)"

text \<open>
  An HTTP request as \<^verbatim>\<open>fetch(url, init)\<close> receives it. The body is the value handed to
  \<^verbatim>\<open>JSON.stringify\<close> (an object of strings, for which it cannot throw). The response
  is what the service reads of it: \<^verbatim>\<open>ok\<close>, and the outcome of \<^verbatim>\<open>await response.json()\<close>
  (it throws when the body is not JSON).
\<close>

record request =
  url :: string
  http_method :: string
  headers :: "(string \<times> string) list"
  body :: "jsval option"

record response =
  ok :: bool
  json :: "js_error + json"

definition response_json :: "response \<Rightarrow> js_error + jsval" where
  "response_json r = (case json r of Inl e \<Rightarrow> Inl e | Inr j \<Rightarrow> Inr (of_json j))"

text \<open>What a run does to the outside, in the order it does it.\<close>

datatype timer_task = Reconnect

datatype effect =
    Sleep real
  | ConsoleWarn string
  | ConsoleError string js_error
  | GenerateContent string string
  | Fetch request
  | NewWebSocket nat string
  | SetTimeout timer_task nat
  | CallMessage jsval
  | CallUserJoined jsval jsval
  | CallUserLeft jsval jsval jsval
  | CallLog string


section \<open>The response generator (services/geminiService.ts)\<close>

subsection \<open>Data model\<close>

text \<open>
  Modelled from the spec: the types \<^verbatim>\<open>Message\<close>, \<^verbatim>\<open>AIPersonality\<close>, \<^verbatim>\<open>AIProvider\<close> and
  \<^verbatim>\<open>Bot\<close> of \<^verbatim>\<open>../types\<close>, a file that is not among the sources. A message is an
  author display name, an author identifier and a text; a personality is a style, three
  levels between 0 and 100, a behaviour, a mode and a language; a bot is an identifier,
  a display name, a personality and a selected provider. The records hold the fields
  the service reads, under the names it reads them by (\<open>msg_text\<close>, \<open>bot_id\<close> and
  \<open>bot_name\<close> stand for \<^verbatim>\<open>text\<close>, \<^verbatim>\<open>id\<close> and \<^verbatim>\<open>name\<close>). The provider is the string the
  code compares against \<^verbatim>\<open>'gpt'\<close> and \<^verbatim>\<open>'gemini'\<close>.
\<close>

record Message =
  author :: string
  authorId :: string
  msg_text :: string

record AIPersonality =
  style :: string
  humor :: int
  aggressiveness :: int
  creativity :: int
  behavior :: string
  mode :: string
  language :: string

record Bot =
  bot_id :: string
  bot_name :: string
  personality :: AIPersonality
  aiProvider :: string

text \<open>
  What the module reads from outside itself: the two environment variables, the
  successive results of \<^verbatim>\<open>Math.random()\<close> (the \<open>k\<close>-th call returns \<open>Math_random k\<close>),
  and the hosted model behind \<^verbatim>\<open>ai.models.generateContent\<close>, which given the model name
  and the prompt either throws or answers with a response whose \<^verbatim>\<open>text\<close> is a string
  or \<^verbatim>\<open>undefined\<close>.
\<close>

record gem_env =
  VITE_GEMINI_API_KEY :: "string option"
  GEMINI_API_KEY :: "string option"
  Math_random :: "nat \<Rightarrow> real"
  generateContent :: "string \<Rightarrow> string \<Rightarrow> js_error + string option"

record gem_state =
  draws :: nat
  effects :: "effect list"

definition sleep :: "real \<Rightarrow> (gem_state, unit) prog" where
  "sleep ms = (\<lambda>s. (Inr (), s\<lparr>effects := effects s @ [Sleep ms]\<rparr>))"

definition random :: "gem_env \<Rightarrow> (gem_state, real) prog" where
  "random env = (\<lambda>s. (Inr (Math_random env (draws s)), s\<lparr>draws := Suc (draws s)\<rparr>))"

definition console_warn :: "string \<Rightarrow> (gem_state, unit) prog" where
  "console_warn msg = (\<lambda>s. (Inr (), s\<lparr>effects := effects s @ [ConsoleWarn msg]\<rparr>))"

definition console_error :: "string \<Rightarrow> js_error \<Rightarrow> (gem_state, unit) prog" where
  "console_error msg e = (\<lambda>s. (Inr (), s\<lparr>effects := effects s @ [ConsoleError msg e]\<rparr>))"

subsection \<open>Module constants\<close>

text \<open>A string is truthy when it is defined and not empty.\<close>

definition getApiKey :: "gem_env \<Rightarrow> string" where
  "getApiKey env =
     (case VITE_GEMINI_API_KEY env of
        Some viteKey \<Rightarrow>
          if viteKey \<noteq> [] then viteKey
          else (case GEMINI_API_KEY env of
                  Some processKey \<Rightarrow> if processKey \<noteq> [] then processKey else []
                | None \<Rightarrow> [])
      | None \<Rightarrow>
          (case GEMINI_API_KEY env of
             Some processKey \<Rightarrow> if processKey \<noteq> [] then processKey else []
           | None \<Rightarrow> []))"

definition API_KEY :: "gem_env \<Rightarrow> string" where
  "API_KEY env = getApiKey env"

text \<open>The client object, identified by the key it was built with; \<open>None\<close> is \<^verbatim>\<open>null\<close>.\<close>

definition ai :: "gem_env \<Rightarrow> string option" where
  "ai env = (if API_KEY env \<noteq> [] then Some (API_KEY env) else None)"

subsection \<open>generatePrompt\<close>

definition historyText :: "Message list \<Rightarrow> string" where
  "historyText history =
     join ''\<newline>'' (map (\<lambda>msg. author msg @ '': '' @ msg_text msg) (drop (length history - 10) history))"

definition generatePrompt :: "AIPersonality \<Rightarrow> Message list \<Rightarrow> string \<Rightarrow> string" where
  "generatePrompt p history botName =
     ''\<newline>You are an IMVU chat bot named '' @ botName
       @ ''. Your personality is strictly defined by these traits:\<newline>''
     @ ''- Style: '' @ style p @ ''\<newline>''
     @ ''- Humor Level (0-100): '' @ number_to_string (humor p) @ ''\<newline>''
     @ ''- Aggressiveness (0-100): '' @ number_to_string (aggressiveness p) @ ''\<newline>''
     @ ''- Creativity (0-100): '' @ number_to_string (creativity p) @ ''\<newline>''
     @ ''- Behavior: '' @ behavior p @ ''\<newline>''
     @ ''- Mode: '' @ mode p @ ''\<newline>''
     @ ''- Language: '' @ language p @ ''\<newline>''
     @ ''\<newline>''
     @ ''Based on this personality, you must continue the following conversation.\<newline>''
     @ ''Your response should be a single, short chat message. Do not use your name in the response.\<newline>''
     @ ''\<newline>''
     @ ''Conversation History:\<newline>''
     @ historyText history @ ''\<newline>''
     @ ''\<newline>''
     @ botName @ '':''"

subsection \<open>generateBotResponse\<close>

definition mockResponses :: "string list" where
  "mockResponses = [''lol that's funny'', ''idk'', ''cool'', ''what do you mean?'', ''nice outfit!'']"

text \<open>
  \<^verbatim>\<open>String.prototype.trim\<close> removes white space and line terminators from both ends.
  Strings are byte strings here, so the white space is the ASCII part of JavaScript's:
  tab, line feed, vertical tab, form feed, carriage return and space.
\<close>

definition is_space :: "char \<Rightarrow> bool" where
  "is_space c = (c \<in> set [CHR 0x09, CHR 0x0A, CHR 0x0B, CHR 0x0C, CHR 0x0D, CHR 0x20])"

definition trim :: "string \<Rightarrow> string" where
  "trim s = rev (dropWhile is_space (rev (dropWhile is_space s)))"

text \<open>\<^verbatim>\<open>text.split('\n')[0]\<close>: the part of the text before its first line feed.\<close>

definition first_line :: "string \<Rightarrow> string" where
  "first_line s = takeWhile (\<lambda>c. c \<noteq> CHR 0x0A) s"

text \<open>
  \<^verbatim>\<open>response.text.trim()\<close>: reading \<^verbatim>\<open>trim\<close> from \<^verbatim>\<open>undefined\<close> throws a TypeError.
\<close>

definition response_text_trim :: "string option \<Rightarrow> js_error + string" where
  "response_text_trim t =
     (case t of
        None \<Rightarrow> Inl (JsError ''TypeError'' ''Cannot read properties of undefined, reading trim'')
      | Some s \<Rightarrow> Inr (trim s))"

definition await_generateContent :: "gem_env \<Rightarrow> string \<Rightarrow> string \<Rightarrow> (gem_state, string option) prog" where
  "await_generateContent env model contents =
     (\<lambda>s. (generateContent env model contents, s\<lparr>effects := effects s @ [GenerateContent model contents]\<rparr>))"

text \<open>
  The result is the promise's value: a string, or \<^verbatim>\<open>undefined\<close> (\<open>None\<close>) should the
  index computed from \<^verbatim>\<open>Math.random()\<close> fall outside the array. The warning's text
  is the source's without its leading warning sign.
\<close>

definition generateBotResponse ::
  "gem_env \<Rightarrow> AIPersonality \<Rightarrow> Message list \<Rightarrow> string \<Rightarrow> string \<Rightarrow> (gem_state, string option) prog" where
  "generateBotResponse env p history botName provider =
     (if provider = ''gpt'' \<or> ai env = None \<or> API_KEY env = [] then
        and_then
          (if provider = ''gemini'' \<and> API_KEY env = [] then
             console_warn '' Gemini API key not set. Using mock responses. Set VITE_GEMINI_API_KEY in your environment.''
           else ret ())
          (\<lambda>_. and_then (random env)
          (\<lambda>r. and_then (sleep (500 + r * 500))
          (\<lambda>_. and_then (random env)
          (\<lambda>r'. ret (js_index mockResponses \<lfloor>r' * real (length mockResponses)\<rfloor>)))))
      else
        (let prompt = generatePrompt p history botName in
         try_catch
           (and_then (await_generateContent env ''gemini-2.5-flash'' prompt)
           (\<lambda>response. and_then (lift (response_text_trim response))
           (\<lambda>text. ret (let line = first_line text in
                          if line \<noteq> [] then Some line else js_index mockResponses 0))))
           (\<lambda>error. and_then (console_error ''Error generating Gemini response:'' error)
           (\<lambda>_. ret (Some ''I'm not sure what to say.'')))))"

subsection \<open>summarizeRoom and coordinateDialogue\<close>

definition summarizeRoom :: "Message list \<Rightarrow> (gem_state, string) prog" where
  "summarizeRoom history =
     and_then (sleep 300)
     (\<lambda>_. if length history = 0 then ret ''The room is quiet.''
          else (let lastMessage = history ! (length history - 1) in
                ret (''The last message was from '' @ author lastMessage @ '': \"''
                     @ msg_text lastMessage @ ''\". The conversation seems casual.'')))"

record DialogueTurn =
  botToSpeak :: string
  message :: "string option"

definition coordinateDialogue :: "gem_env \<Rightarrow> Bot \<Rightarrow> Bot \<Rightarrow> Message list \<Rightarrow> (gem_state, DialogueTurn) prog" where
  "coordinateDialogue env botA botB history =
     and_then (sleep 1000)
     (\<lambda>_. let lastSpeakerId =
                (if length history > 0 then authorId (history ! (length history - 1)) else bot_id botB);
              speaker = (if lastSpeakerId = bot_id botB then botA else botB)
          in and_then
               (generateBotResponse env (personality speaker) history (bot_name speaker) (aiProvider speaker))
             (\<lambda>reply. ret \<lparr>botToSpeak = bot_id speaker, message = reply\<rparr>))"


section \<open>The backend connector (services/imvuService.ts)\<close>

subsection \<open>State and environment\<close>

text \<open>
  The four callback slots and the channel handle of the class. A registered callback
  is a function the application supplied: called with its arguments it either returns
  normally (\<open>None\<close>) or throws (\<open>Some e\<close>), and the service calls it with no protection
  of its own. The call is the effect \<open>CallMessage\<close>, \<open>CallUserJoined\<close>, \<open>CallUserLeft\<close>
  or \<open>CallLog\<close> with the arguments passed. What else a callback does is outside the
  model; it does not call back into the service. A socket is identified by the number
  of sockets built before it.
\<close>

record ImvuService =
  messageCallback :: "(jsval \<Rightarrow> js_error option) option"
  logCallback :: "(string \<Rightarrow> js_error option) option"
  userJoinedCallback :: "(jsval \<Rightarrow> jsval \<Rightarrow> js_error option) option"
  userLeftCallback :: "(jsval \<Rightarrow> jsval \<Rightarrow> jsval \<Rightarrow> js_error option) option"
  ws :: "nat option"

record imvu_state =
  self :: ImvuService
  sockets :: nat
  clock_reads :: nat
  trace :: "effect list"

text \<open>
  What the class reads from the platform: \<^verbatim>\<open>JSON.parse\<close>, which throws on a text
  that is not JSON; the conversion of a value
  that is not a string inside a template literal (which may throw); the \<open>k\<close>-th reading
  of \<^verbatim>\<open>new Date().toLocaleTimeString()\<close>; whether building the \<open>k\<close>-th socket for a URL
  throws; and the backend behind \<^verbatim>\<open>fetch\<close>, which rejects or answers a request.
\<close>

record imvu_env =
  JSON_parse :: "string \<Rightarrow> js_error + json"
  ToString :: "jsval \<Rightarrow> js_error + string"
  toLocaleTimeString :: "nat \<Rightarrow> string"
  WebSocket_new :: "string \<Rightarrow> nat \<Rightarrow> js_error option"
  fetch :: "request \<Rightarrow> js_error + response"

definition BACKEND_URL :: string where
  "BACKEND_URL = ''http://localhost:3001''"

definition WS_URL :: string where
  "WS_URL = ''ws://localhost:3001/ws''"

definition emit :: "effect \<Rightarrow> (imvu_state, unit) prog" where
  "emit e = (\<lambda>s. (Inr (), s\<lparr>trace := trace s @ [e]\<rparr>))"

text \<open>
  Calling a registered callback: the call happens, and what the callback throws,
  if it throws, propagates from the call.
\<close>

definition call_back :: "effect \<Rightarrow> js_error option \<Rightarrow> (imvu_state, unit) prog" where
  "call_back e outcome =
     (\<lambda>s. (case outcome of None \<Rightarrow> Inr () | Some thrown \<Rightarrow> Inl thrown, s\<lparr>trace := trace s @ [e]\<rparr>))"

definition parse_frame :: "imvu_env \<Rightarrow> string \<Rightarrow> js_error + jsval" where
  "parse_frame env event_data =
     (case JSON_parse env event_data of Inl e \<Rightarrow> Inl e | Inr j \<Rightarrow> Inr (of_json j))"

definition this_service :: "(imvu_state, ImvuService) prog" where
  "this_service = (\<lambda>s. (Inr (self s), s))"

text \<open>A value inside a template literal.\<close>

definition template :: "imvu_env \<Rightarrow> jsval \<Rightarrow> js_error + string" where
  "template env v = (case v of JStr s \<Rightarrow> Inr s | _ \<Rightarrow> ToString env v)"

definition await_fetch :: "imvu_env \<Rightarrow> request \<Rightarrow> (imvu_state, response) prog" where
  "await_fetch env req = (\<lambda>s. (fetch env req, s\<lparr>trace := trace s @ [Fetch req]\<rparr>))"

definition new_WebSocket :: "imvu_env \<Rightarrow> string \<Rightarrow> (imvu_state, nat) prog" where
  "new_WebSocket env u =
     (\<lambda>s. case WebSocket_new env u (sockets s) of
             Some e \<Rightarrow> (Inl e, s\<lparr>sockets := Suc (sockets s)\<rparr>)
           | None \<Rightarrow> (Inr (sockets s),
                      s\<lparr>sockets := Suc (sockets s), trace := trace s @ [NewWebSocket (sockets s) u]\<rparr>))"

subsection \<open>log and the registration methods\<close>

text \<open>
  \<^verbatim>\<open>this.logCallback?.(...)\<close>: with no callback registered the argument is not
  evaluated; with one registered, what it throws propagates from \<^verbatim>\<open>log\<close>. The
  parameter is typed \<^verbatim>\<open>string\<close>; the channel's \<^verbatim>\<open>log\<close> frames pass whatever the frame
  holds.
\<close>

definition log_line :: "imvu_env \<Rightarrow> jsval \<Rightarrow> (imvu_state, unit) prog" where
  "log_line env logMessage =
     (\<lambda>s. let timestamp = toLocaleTimeString env (clock_reads s);
              s1 = s\<lparr>clock_reads := Suc (clock_reads s)\<rparr>
          in case logCallback (self s1) of
               None \<Rightarrow> (Inr (), s1)
             | Some cb \<Rightarrow>
                 (case template env logMessage of
                    Inl e \<Rightarrow> (Inl e, s1)
                  | Inr line \<Rightarrow>
                      call_back (CallLog (''['' @ timestamp @ ''] '' @ line))
                        (cb (''['' @ timestamp @ ''] '' @ line)) s1))"

definition onMessage :: "(jsval \<Rightarrow> js_error option) \<Rightarrow> imvu_state \<Rightarrow> imvu_state" where
  "onMessage callback s = s\<lparr>self := (self s)\<lparr>messageCallback := Some callback\<rparr>\<rparr>"

definition onLog :: "(string \<Rightarrow> js_error option) \<Rightarrow> imvu_state \<Rightarrow> imvu_state" where
  "onLog callback s = s\<lparr>self := (self s)\<lparr>logCallback := Some callback\<rparr>\<rparr>"

definition onUserJoined :: "(jsval \<Rightarrow> jsval \<Rightarrow> js_error option) \<Rightarrow> imvu_state \<Rightarrow> imvu_state" where
  "onUserJoined callback s = s\<lparr>self := (self s)\<lparr>userJoinedCallback := Some callback\<rparr>\<rparr>"

definition onUserLeft :: "(jsval \<Rightarrow> jsval \<Rightarrow> jsval \<Rightarrow> js_error option) \<Rightarrow> imvu_state \<Rightarrow> imvu_state" where
  "onUserLeft callback s = s\<lparr>self := (self s)\<lparr>userLeftCallback := Some callback\<rparr>\<rparr>"

subsection \<open>connectWebSocket and the four handlers it installs\<close>

definition ws_onopen :: "imvu_env \<Rightarrow> (imvu_state, unit) prog" where
  "ws_onopen env = log_line env (JStr ''[WebSocket] Connected to backend server'')"

definition ws_onmessage :: "imvu_env \<Rightarrow> string \<Rightarrow> (imvu_state, unit) prog" where
  "ws_onmessage env event_data =
     and_then (lift (parse_frame env event_data))
     (\<lambda>data. and_then (lift (get_prop data ''type''))
     (\<lambda>tag. and_then this_service
     (\<lambda>this.
        if tag = JStr ''message'' then
          (case messageCallback this of
             None \<Rightarrow> ret ()
           | Some cb \<Rightarrow>
               and_then (lift (get_prop data ''data''))
               (\<lambda>d. call_back (CallMessage d) (cb d)))
        else if tag = JStr ''user_joined'' then
          (case userJoinedCallback this of
             None \<Rightarrow> ret ()
           | Some cb \<Rightarrow>
               and_then (lift (get_prop data ''data''))
               (\<lambda>d1. and_then (lift (get_prop d1 ''roomId''))
               (\<lambda>roomId. and_then (lift (get_prop data ''data''))
               (\<lambda>d2. and_then (lift (get_prop d2 ''user''))
               (\<lambda>user. call_back (CallUserJoined roomId user) (cb roomId user))))))
        else if tag = JStr ''user_left'' then
          (case userLeftCallback this of
             None \<Rightarrow> ret ()
           | Some cb \<Rightarrow>
               and_then (lift (get_prop data ''data''))
               (\<lambda>d1. and_then (lift (get_prop d1 ''roomId''))
               (\<lambda>roomId. and_then (lift (get_prop data ''data''))
               (\<lambda>d2. and_then (lift (get_prop d2 ''userId''))
               (\<lambda>userId. and_then (lift (get_prop data ''data''))
               (\<lambda>d3. and_then (lift (get_prop d3 ''username''))
               (\<lambda>username. call_back (CallUserLeft roomId userId username) (cb roomId userId username))))))))
        else if tag = JStr ''log'' then
          and_then (lift (get_prop data ''data''))
          (\<lambda>d. log_line env d)
        else ret ())))"

definition ws_onerror :: "imvu_env \<Rightarrow> js_error \<Rightarrow> (imvu_state, unit) prog" where
  "ws_onerror env error =
     and_then (log_line env (JStr ''[WebSocket] Error connecting to backend''))
     (\<lambda>_. emit (ConsoleError ''WebSocket error:'' error))"

definition ws_onclose :: "imvu_env \<Rightarrow> (imvu_state, unit) prog" where
  "ws_onclose env =
     and_then (log_line env (JStr ''[WebSocket] Disconnected from backend. Reconnecting in 3s...''))
     (\<lambda>_. emit (SetTimeout Reconnect 3000))"

definition connectWebSocket :: "imvu_env \<Rightarrow> (imvu_state, unit) prog" where
  "connectWebSocket env =
     try_catch
       (and_then (new_WebSocket env WS_URL)
       (\<lambda>sock. (\<lambda>s. (Inr (), s\<lparr>self := (self s)\<lparr>ws := Some sock\<rparr>\<rparr>))))
       (\<lambda>error.
          and_then (log_line env (JStr ''[WebSocket] Failed to connect. Make sure backend is running on port 3001''))
          (\<lambda>_. emit (ConsoleError ''WebSocket connection error:'' error)))"

text \<open>The constructor: empty slots, no channel, then the first connection attempt.\<close>

definition ImvuService_new :: "imvu_env \<Rightarrow> (imvu_state, unit) prog" where
  "ImvuService_new env =
     (\<lambda>s. connectWebSocket env
            (s\<lparr>self := \<lparr>messageCallback = None, logCallback = None, userJoinedCallback = None,
                        userLeftCallback = None, ws = None\<rparr>\<rparr>))"

text \<open>
  The runtime delivers the channel's events and the expiry of a reconnect timer to the
  handlers above, one after the other; an error escaping a handler is reported by the
  runtime and the next event is delivered.
\<close>

datatype ws_event = Opened | Frame string | Errored js_error | Closed | TimerExpired

definition deliver :: "imvu_env \<Rightarrow> ws_event \<Rightarrow> (imvu_state, unit) prog" where
  "deliver env ev =
     (case ev of
        Opened \<Rightarrow> ws_onopen env
      | Frame d \<Rightarrow> ws_onmessage env d
      | Errored e \<Rightarrow> ws_onerror env e
      | Closed \<Rightarrow> ws_onclose env
      | TimerExpired \<Rightarrow> connectWebSocket env)"

fun deliver_all :: "imvu_env \<Rightarrow> ws_event list \<Rightarrow> imvu_state \<Rightarrow> imvu_state" where
  "deliver_all env [] s = s"
| "deliver_all env (ev # evs) s = deliver_all env evs (snd (deliver env ev s))"

definition scheduled_reconnects :: "imvu_state \<Rightarrow> effect list" where
  "scheduled_reconnects s = filter (\<lambda>e. case e of SetTimeout _ _ \<Rightarrow> True | _ \<Rightarrow> False) (trace s)"

definition network_calls :: "imvu_state \<Rightarrow> effect list" where
  "network_calls s = filter (\<lambda>e. case e of Fetch _ \<Rightarrow> True | _ \<Rightarrow> False) (trace s)"

definition callback_calls :: "imvu_state \<Rightarrow> effect list" where
  "callback_calls s =
     filter (\<lambda>e. case e of CallMessage _ \<Rightarrow> True | CallUserJoined _ _ \<Rightarrow> True
                 | CallUserLeft _ _ _ \<Rightarrow> True | CallLog _ \<Rightarrow> True | _ \<Rightarrow> False) (trace s)"

subsection \<open>The outbound operations\<close>

definition login_request :: "string \<Rightarrow> string \<Rightarrow> request" where
  "login_request username password =
     \<lparr>url = BACKEND_URL @ ''/login'', http_method = ''POST'',
      headers = [(''Content-Type'', ''application/json'')],
      body = Some (JObj [(''username'', JStr username), (''password'', JStr password)])\<rparr>"

text \<open>
  \<^verbatim>\<open>password?: string\<close>: \<open>None\<close> is \<^verbatim>\<open>undefined\<close>; \<^verbatim>\<open>!password\<close> holds of \<^verbatim>\<open>undefined\<close>
  and of the empty string.
\<close>

definition login :: "imvu_env \<Rightarrow> string \<Rightarrow> string \<Rightarrow> string option \<Rightarrow> (imvu_state, bool) prog" where
  "login env botId username password =
     (let no_password =
            and_then (log_line env (JStr (''['' @ username @ ''] Login failed: Password is required.'')))
            (\<lambda>_. ret False)
      in case password of
        None \<Rightarrow> no_password
      | Some pw \<Rightarrow>
          if pw = [] then no_password
          else
          try_catch
            (and_then (log_line env (JStr (''['' @ username @ ''] Attempting to login via backend...'')))
            (\<lambda>_. and_then (await_fetch env (login_request username pw))
            (\<lambda>response. and_then (lift (response_json response))
            (\<lambda>data. and_then
                       (if \<not> ok response then ret True
                        else and_then (lift (get_prop data ''success'')) (\<lambda>success. ret (\<not> truthy success)))
            (\<lambda>failed.
               if failed then
                 and_then (lift (get_prop data ''error''))
                 (\<lambda>err. and_then (lift (template env (js_or err (JStr ''Unknown error''))))
                 (\<lambda>reason. and_then (log_line env (JStr (''['' @ username @ ''] Login failed: '' @ reason)))
                 (\<lambda>_. ret False)))
               else
                 and_then (log_line env (JStr (''['' @ username @ ''] Successfully logged in!'')))
                 (\<lambda>_. ret True))))))
            (\<lambda>error.
               and_then (log_line env (JStr (''['' @ username @ ''] Login failed: '' @ err_message error
                                             @ ''. Is the backend running?'')))
               (\<lambda>_. and_then (emit (ConsoleError ''Login error:'' error))
               (\<lambda>_. ret False))))"












section \<open>Notions the properties are stated with\<close>


text \<open>
  The registered log callback is sound when it returns normally on every line, or none
  is registered. An error is thrown by the log callback when the registered callback
  throws it on some line.
\<close>

definition log_callback_sound :: "imvu_state \<Rightarrow> bool" where
  "log_callback_sound s = (case logCallback (self s) of None \<Rightarrow> True | Some cb \<Rightarrow> \<forall>line. cb line = None)"

definition thrown_by_log_callback :: "imvu_state \<Rightarrow> js_error \<Rightarrow> bool" where
  "thrown_by_log_callback s e = (\<exists>cb line. logCallback (self s) = Some cb \<and> cb line = Some e)"

text \<open>
  The state after \<^verbatim>\<open>this.log(m)\<close> when the registered callback, if there is one, has
  returned normally.
\<close>

definition logged :: "imvu_env \<Rightarrow> string \<Rightarrow> imvu_state \<Rightarrow> imvu_state" where
  "logged env m s =
     (case logCallback (self s) of
        None \<Rightarrow> s\<lparr>clock_reads := Suc (clock_reads s)\<rparr>
      | Some cb \<Rightarrow> s\<lparr>clock_reads := Suc (clock_reads s),
                     trace := trace s @ [CallLog (''['' @ toLocaleTimeString env (clock_reads s) @ ''] '' @ m)]\<rparr>)"

text \<open>A run that leaves an observation \<open>f\<close> of the state as it was, whatever the state.\<close>

definition keeps :: "(imvu_state \<Rightarrow> 'b) \<Rightarrow> (imvu_state, 'a) prog \<Rightarrow> bool" where
  "keeps f m = (\<forall>s. f (snd (m s)) = f s)"

text \<open>
  The specification's words for the history in the prompt: the last \<open>n\<close> entries of a
  list in their order, and the line \<^verbatim>\<open>author: text\<close> of an entry.
\<close>

definition last_entries :: "nat \<Rightarrow> 'a list \<Rightarrow> 'a list" where
  "last_entries n xs = rev (take n (rev xs))"

definition author_text_line :: "Message \<Rightarrow> string" where
  "author_text_line m = author m @ '': '' @ msg_text m"

subsection \<open>Concrete inputs\<close>

definition casual :: AIPersonality where
  "casual = \<lparr>style = ''casual'', humor = 50, aggressiveness = 10, creativity = 70,
             behavior = ''friendly'', mode = ''chat'', language = ''en''\<rparr>"

definition formal :: AIPersonality where
  "formal = \<lparr>style = ''formal'', humor = 0, aggressiveness = 0, creativity = 20,
             behavior = ''reserved'', mode = ''assist'', language = ''pt''\<rparr>"

definition alice :: Bot where
  "alice = \<lparr>bot_id = ''a'', bot_name = ''Alice'', personality = casual, aiProvider = ''gpt''\<rparr>"

definition bob :: Bot where
  "bob = \<lparr>bot_id = ''b'', bot_name = ''Bob'', personality = formal, aiProvider = ''gpt''\<rparr>"

definition said :: "string \<Rightarrow> string \<Rightarrow> string \<Rightarrow> Message" where
  "said who whoId what = \<lparr>author = who, authorId = whoId, msg_text = what\<rparr>"

text \<open>No key configured; every \<^verbatim>\<open>Math.random()\<close> returns one half.\<close>

definition env_no_key :: gem_env where
  "env_no_key =
     \<lparr>VITE_GEMINI_API_KEY = None, GEMINI_API_KEY = None, Math_random = (\<lambda>_. 1 / 2),
      generateContent = (\<lambda>_ _. Inr (Some ''hello''))\<rparr>"

text \<open>A key configured, and a hosted model whose every call throws.\<close>

definition env_llm_down :: gem_env where
  "env_llm_down =
     \<lparr>VITE_GEMINI_API_KEY = Some ''key'', GEMINI_API_KEY = None, Math_random = (\<lambda>_. 1 / 2),
      generateContent = (\<lambda>_ _. Inl (JsError ''Error'' ''quota exceeded''))\<rparr>"

definition gem_start :: gem_state where
  "gem_start = \<lparr>draws = 0, effects = []\<rparr>"

text \<open>
  A backend that cannot be reached, and one that answers every request with a
  non-success response. The frame \<^verbatim>\<open>null\<close> parses to \<^verbatim>\<open>null\<close>, every other frame to
  an object whose type is \<^verbatim>\<open>ping\<close>.
\<close>

definition env_offline :: imvu_env where
  "env_offline =
     \<lparr>JSON_parse = (\<lambda>frame. if frame = ''null'' then Inr JsonNull
                             else Inr (JsonObj [(''type'', JsonStr ''ping'')])),
      ToString = (\<lambda>_. Inr ''[object Object]''),
      toLocaleTimeString = (\<lambda>_. ''12:00:00''),
      WebSocket_new = (\<lambda>_ _. None),
      fetch = (\<lambda>_. Inl (JsError ''TypeError'' ''Failed to fetch''))\<rparr>"

definition env_refusing :: imvu_env where
  "env_refusing =
     \<lparr>JSON_parse = (\<lambda>frame. if frame = ''null'' then Inr JsonNull
                             else Inr (JsonObj [(''type'', JsonStr ''ping'')])),
      ToString = (\<lambda>_. Inr ''[object Object]''),
      toLocaleTimeString = (\<lambda>_. ''12:00:00''),
      WebSocket_new = (\<lambda>_ _. None),
      fetch = (\<lambda>_. Inr \<lparr>ok = False,
                          json = Inr (JsonObj [(''success'', JsonBool False), (''error'', JsonStr ''denied'')])\<rparr>)\<rparr>"

text \<open>
  A service with a message callback and a log callback registered that return
  normally, and the same service after a log callback that throws on every line has
  been registered.
\<close>

definition imvu_start :: imvu_state where
  "imvu_start =
     \<lparr>self = \<lparr>messageCallback = Some (\<lambda>_. None), logCallback = Some (\<lambda>_. None),
              userJoinedCallback = None, userLeftCallback = None, ws = Some 0\<rparr>,
      sockets = 1, clock_reads = 0, trace = []\<rparr>"

definition imvu_log_throws :: imvu_state where
  "imvu_log_throws = onLog (\<lambda>_. Some (JsError ''Error'' ''log sink closed'')) imvu_start"

text \<open>Ten messages, numbered from 1 to 10.\<close>

definition ten_messages :: "Message list" where
  "ten_messages = map (\<lambda>n. said ''Bob'' ''b'' (digits n)) [1..<11]"

section \<open>Properties of the response generator\<close>

lemmas prog_defs = ret_def and_then_def try_catch_def lift_def

lemmas gem_defs = sleep_def random_def console_warn_def console_error_def await_generateContent_def

lemmas imvu_defs = emit_def call_back_def this_service_def await_fetch_def new_WebSocket_def log_line_def
  parse_frame_def response_json_def

subsection \<open>Who speaks first\<close>

text \<open>
  Claim C2 says that with an empty history \<open>coordinateDialogue\<close> selects botB. The code
  takes botB as the last speaker when the history is empty and gives the turn to the
  other bot: for Alice (identifier \<open>a\<close>) and Bob (identifier \<open>b\<close>) the turn goes to \<open>a\<close>.
\<close>

theorem coordinateDialogue_empty_not_botB:
  "fst (coordinateDialogue env_no_key alice bob [] gem_start)
     = Inr \<lparr>botToSpeak = ''a'', message = Some ''cool''\<rparr>
   \<and> bot_id bob = ''b'' \<and> ''a'' \<noteq> bot_id bob"
  by (simp add: coordinateDialogue_def generateBotResponse_def prog_defs gem_defs env_no_key_def
      alice_def bob_def gem_start_def ai_def API_KEY_def getApiKey_def js_index_def mockResponses_def)

text \<open>
  Claim C2, amended: for every pair of bots, every environment and every starting
  state, \<open>coordinateDialogue\<close> called with an empty history returns normally and its
  \<open>botToSpeak\<close> is botA's identifier.
\<close>

theorem coordinateDialogue_empty_selects_botA:
  "\<exists>reply s'. coordinateDialogue env botA botB [] s
      = (Inr \<lparr>botToSpeak = bot_id botA, message = reply\<rparr>, s')"
  by (auto simp add: coordinateDialogue_def generateBotResponse_def prog_defs gem_defs Let_def
      split: prod.splits sum.splits option.splits)

subsection \<open>The history in the prompt\<close>

lemma last_entries_drop: "last_entries (min 10 (length h)) h = drop (length h - 10) h"
  by (simp add: last_entries_def take_rev min_def)

lemma historyText_last_entries:
  "historyText h = join ''\<newline>'' (map author_text_line (last_entries (min 10 (length h)) h))"
proof -
  have "author_text_line = (\<lambda>msg. author msg @ '': '' @ msg_text msg)"
    by (rule ext) (simp add: author_text_line_def)
  then show ?thesis
    by (simp add: historyText_def last_entries_drop)
qed

lemma historyText_older: "10 \<le> length recent \<Longrightarrow> historyText (older @ recent) = historyText recent"
  by (simp add: historyText_def)

text \<open>
  Claim C3: the prompt is a frame that does not depend on the history, around the
  lines \<^verbatim>\<open>author: text\<close> of exactly the last \<open>min 10 (length history)\<close> entries, joined by
  line feeds in their order; these entries are a suffix of the history, and whatever
  precedes ten or more entries has no influence on the prompt.
\<close>

theorem generatePrompt_last_ten:
  "\<exists>header footer. \<forall>history.
      generatePrompt p history botName
        = header @ join ''\<newline>'' (map author_text_line (last_entries (min 10 (length history)) history)) @ footer
      \<and> length (last_entries (min 10 (length history)) history) = min 10 (length history)
      \<and> (\<exists>older. history = older @ last_entries (min 10 (length history)) history)
      \<and> (\<forall>older. 10 \<le> length history \<longrightarrow>
            generatePrompt p (older @ history) botName = generatePrompt p history botName)"
proof -
  let ?header =
    "''\<newline>You are an IMVU chat bot named '' @ botName
       @ ''. Your personality is strictly defined by these traits:\<newline>''
     @ ''- Style: '' @ style p @ ''\<newline>''
     @ ''- Humor Level (0-100): '' @ number_to_string (humor p) @ ''\<newline>''
     @ ''- Aggressiveness (0-100): '' @ number_to_string (aggressiveness p) @ ''\<newline>''
     @ ''- Creativity (0-100): '' @ number_to_string (creativity p) @ ''\<newline>''
     @ ''- Behavior: '' @ behavior p @ ''\<newline>''
     @ ''- Mode: '' @ mode p @ ''\<newline>''
     @ ''- Language: '' @ language p @ ''\<newline>''
     @ ''\<newline>''
     @ ''Based on this personality, you must continue the following conversation.\<newline>''
     @ ''Your response should be a single, short chat message. Do not use your name in the response.\<newline>''
     @ ''\<newline>''
     @ ''Conversation History:\<newline>''"
  let ?footer = "''\<newline>'' @ ''\<newline>'' @ botName @ '':''"
  have frame: "generatePrompt p history botName = ?header @ historyText history @ ?footer" for history
    by (simp add: generatePrompt_def)
  have len: "length (last_entries (min 10 (length history)) history) = min 10 (length history)"
    for history :: "Message list"
    by (simp add: last_entries_def)
  have suffix: "\<exists>older. history = older @ last_entries (min 10 (length history)) history"
    for history :: "Message list"
  proof
    show "history = take (length history - 10) history @ last_entries (min 10 (length history)) history"
      by (simp add: last_entries_drop)
  qed
  have older: "10 \<le> length history \<longrightarrow>
      generatePrompt p (older @ history) botName = generatePrompt p history botName" for older history
    by (simp add: generatePrompt_def historyText_older)
  have "\<forall>history.
      generatePrompt p history botName
        = ?header @ join ''\<newline>'' (map author_text_line (last_entries (min 10 (length history)) history)) @ ?footer
      \<and> length (last_entries (min 10 (length history)) history) = min 10 (length history)
      \<and> (\<exists>older. history = older @ last_entries (min 10 (length history)) history)
      \<and> (\<forall>older. 10 \<le> length history \<longrightarrow>
            generatePrompt p (older @ history) botName = generatePrompt p history botName)"
    using frame len suffix older by (simp add: historyText_last_entries)
  then show ?thesis by blast
qed

theorem generatePrompt_last_ten_witness:
  "10 \<le> length ten_messages
   \<and> generatePrompt casual (said ''Zoe'' ''z'' ''long ago'' # ten_messages) ''Alice''
       = generatePrompt casual ten_messages ''Alice''
   \<and> length (last_entries (min 10 (length (said ''Zoe'' ''z'' ''long ago'' # ten_messages)))
               (said ''Zoe'' ''z'' ''long ago'' # ten_messages)) = 10"
proof -
  from generatePrompt_last_ten [of casual "''Alice''"] obtain header footer where
    all: "\<forall>history.
      generatePrompt casual history ''Alice''
        = header @ join ''\<newline>'' (map author_text_line (last_entries (min 10 (length history)) history)) @ footer
      \<and> length (last_entries (min 10 (length history)) history) = min 10 (length history)
      \<and> (\<exists>older. history = older @ last_entries (min 10 (length history)) history)
      \<and> (\<forall>older. 10 \<le> length history \<longrightarrow>
            generatePrompt casual (older @ history) ''Alice'' = generatePrompt casual history ''Alice'')"
    by blast
  have ten: "10 \<le> length ten_messages"
    by (simp add: ten_messages_def)
  from all ten have "generatePrompt casual ([said ''Zoe'' ''z'' ''long ago''] @ ten_messages) ''Alice''
      = generatePrompt casual ten_messages ''Alice''"
    by blast
  moreover from all have "length (last_entries (min 10 (length (said ''Zoe'' ''z'' ''long ago'' # ten_messages)))
               (said ''Zoe'' ''z'' ''long ago'' # ten_messages))
      = min 10 (length (said ''Zoe'' ''z'' ''long ago'' # ten_messages))"
    by blast
  ultimately show ?thesis using ten by (simp add: ten_messages_def)
qed

subsection \<open>The mock path\<close>

lemma mock_reply:
  assumes "provider = ''gpt'' \<or> API_KEY env = []"
  shows "fst (generateBotResponse env p history botName provider s)
           = Inr (js_index mockResponses \<lfloor>Math_random env (Suc (draws s)) * 5\<rfloor>)"
  using assms
  by (auto simp add: generateBotResponse_def prog_defs gem_defs ai_def mockResponses_def)

text \<open>
  Claim C4: when the provider is \<^verbatim>\<open>'gpt'\<close> or no API key is configured, and
  \<^verbatim>\<open>Math.random()\<close> returns numbers from 0 up to but excluding 1 as it is specified to,
  \<open>generateBotResponse\<close> returns normally, for every personality, history and bot name,
  one of the five filler phrases.
\<close>

theorem generateBotResponse_mock_filler:
  assumes "provider = ''gpt'' \<or> API_KEY env = []"
    and "\<forall>k. 0 \<le> Math_random env k \<and> Math_random env k < 1"
  shows "\<exists>phrase. phrase \<in> {''lol that's funny'', ''idk'', ''cool'', ''what do you mean?'', ''nice outfit!''}
           \<and> phrase \<in> set mockResponses
           \<and> fst (generateBotResponse env p history botName provider s) = Inr (Some phrase)"
proof -
  define i where "i = \<lfloor>Math_random env (Suc (draws s)) * 5\<rfloor>"
  from assms(2) have "0 \<le> Math_random env (Suc (draws s))" "Math_random env (Suc (draws s)) < 1"
    by simp_all
  then have "0 \<le> i" "i < 5"
    by (simp_all add: i_def floor_less_iff)
  then have "i \<in> {0, 1, 2, 3, 4}"
    by auto
  then have "\<exists>phrase. phrase \<in> {''lol that's funny'', ''idk'', ''cool'', ''what do you mean?'', ''nice outfit!''}
           \<and> phrase \<in> set mockResponses \<and> js_index mockResponses i = Some phrase"
    by (auto simp add: js_index_def mockResponses_def)
  with mock_reply [OF assms(1)] show ?thesis
    by (simp add: i_def)
qed

theorem generateBotResponse_mock_filler_witness:
  "(''gemini'' = ''gpt'' \<or> API_KEY env_no_key = [])
   \<and> (\<forall>k. 0 \<le> Math_random env_no_key k \<and> Math_random env_no_key k < 1)
   \<and> fst (generateBotResponse env_no_key casual [said ''Bob'' ''b'' ''hi''] ''Alice'' ''gemini'' gem_start)
       = Inr (Some ''cool'')
   \<and> ''cool'' \<in> set mockResponses"
proof -
  have key: "''gemini'' = ''gpt'' \<or> API_KEY env_no_key = []"
    by (simp add: API_KEY_def getApiKey_def env_no_key_def)
  have rnd: "\<forall>k. 0 \<le> Math_random env_no_key k \<and> Math_random env_no_key k < 1"
    by (simp add: env_no_key_def)
  from generateBotResponse_mock_filler [OF key rnd, of casual "[said ''Bob'' ''b'' ''hi'']" "''Alice''" gem_start]
  obtain phrase where "phrase \<in> set mockResponses"
    and "fst (generateBotResponse env_no_key casual [said ''Bob'' ''b'' ''hi''] ''Alice'' ''gemini'' gem_start)
           = Inr (Some phrase)"
    by blast
  moreover have "fst (generateBotResponse env_no_key casual [said ''Bob'' ''b'' ''hi''] ''Alice'' ''gemini'' gem_start)
           = Inr (Some ''cool'')"
    by (simp add: generateBotResponse_def prog_defs gem_defs ai_def API_KEY_def getApiKey_def env_no_key_def
        gem_start_def js_index_def mockResponses_def)
  ultimately show ?thesis using key rnd by simp
qed

text \<open>
  Claim C10: on the mock path the returned phrase does not depend on the personality,
  the history or the bot name. Two runs that see the same results of \<^verbatim>\<open>Math.random()\<close>
  (the same environment, the same number of earlier draws) return the same value,
  whatever these three arguments are in each run.
\<close>

theorem generateBotResponse_mock_independent:
  assumes "provider1 = ''gpt'' \<or> API_KEY env = []"
    and "provider2 = ''gpt'' \<or> API_KEY env = []"
    and "draws s1 = draws s2"
  shows "fst (generateBotResponse env p1 history1 botName1 provider1 s1)
           = fst (generateBotResponse env p2 history2 botName2 provider2 s2)"
  using mock_reply [OF assms(1)] mock_reply [OF assms(2)] assms(3) by simp

theorem generateBotResponse_mock_independent_witness:
  "(''gpt'' = ''gpt'' \<or> API_KEY env_llm_down = [])
   \<and> draws gem_start = draws (gem_start\<lparr>effects := [Sleep 300]\<rparr>)
   \<and> fst (generateBotResponse env_llm_down casual [said ''Bob'' ''b'' ''hi''] ''Alice'' ''gpt'' gem_start)
       = fst (generateBotResponse env_llm_down formal ten_messages ''Bob'' ''gpt'' (gem_start\<lparr>effects := [Sleep 300]\<rparr>))"
proof -
  have gpt: "''gpt'' = ''gpt'' \<or> API_KEY env_llm_down = []"
    by simp
  have same: "draws gem_start = draws (gem_start\<lparr>effects := [Sleep 300]\<rparr>)"
    by simp
  from generateBotResponse_mock_independent [OF gpt gpt same] gpt same show ?thesis
    by blast
qed

subsection \<open>The hosted model failing\<close>

text \<open>
  Claim C5: on the LLM path (the provider is not \<^verbatim>\<open>'gpt'\<close> and a key is configured),
  when the completion call throws, \<open>generateBotResponse\<close> returns normally with the
  apology; no error reaches the caller.
\<close>

theorem generateBotResponse_llm_error_caught:
  assumes "provider \<noteq> ''gpt''" and "API_KEY env \<noteq> []"
    and "generateContent env ''gemini-2.5-flash'' (generatePrompt p history botName) = Inl e"
  shows "fst (generateBotResponse env p history botName provider s) = Inr (Some ''I'm not sure what to say.'')"
  using assms by (simp add: generateBotResponse_def prog_defs gem_defs ai_def)

theorem generateBotResponse_llm_error_caught_witness:
  "''gemini'' \<noteq> ''gpt'' \<and> API_KEY env_llm_down \<noteq> []
   \<and> generateContent env_llm_down ''gemini-2.5-flash'' (generatePrompt casual [said ''Bob'' ''b'' ''hi''] ''Alice'')
       = Inl (JsError ''Error'' ''quota exceeded'')
   \<and> fst (generateBotResponse env_llm_down casual [said ''Bob'' ''b'' ''hi''] ''Alice'' ''gemini'' gem_start)
       = Inr (Some ''I'm not sure what to say.'')"
proof -
  have p: "''gemini'' \<noteq> ''gpt''"
    by simp
  have k: "API_KEY env_llm_down \<noteq> []"
    by (simp add: API_KEY_def getApiKey_def env_llm_down_def)
  have g: "generateContent env_llm_down ''gemini-2.5-flash'' (generatePrompt casual [said ''Bob'' ''b'' ''hi''] ''Alice'')
       = Inl (JsError ''Error'' ''quota exceeded'')"
    by (simp add: env_llm_down_def)
  from generateBotResponse_llm_error_caught [OF p k g] p k g show ?thesis
    by blast
qed

subsection \<open>summarizeRoom\<close>

text \<open>
  Claim C7: \<open>summarizeRoom\<close> returns the sentence \<^verbatim>\<open>The room is quiet.\<close> for the empty
  history, and for a history that is not empty the sentence that names the author of
  the last entry and puts that entry's text between double quotes.
\<close>

theorem summarizeRoom_sentences:
  "fst (summarizeRoom [] s) = Inr ''The room is quiet.''
   \<and> (history \<noteq> [] \<longrightarrow>
        fst (summarizeRoom history s)
          = Inr (''The last message was from '' @ author (last history) @ '': \"''
                 @ msg_text (last history) @ ''\". The conversation seems casual.''))"
  by (simp add: summarizeRoom_def prog_defs gem_defs last_conv_nth Let_def)

theorem summarizeRoom_sentences_witness:
  "[said ''Bob'' ''b'' ''hi''] \<noteq> []
   \<and> fst (summarizeRoom [] gem_start) = Inr ''The room is quiet.''
   \<and> fst (summarizeRoom [said ''Bob'' ''b'' ''hi''] gem_start)
       = Inr ''The last message was from Bob: \"hi\". The conversation seems casual.''"
  using summarizeRoom_sentences [of gem_start "[said ''Bob'' ''b'' ''hi'']"]
  by (simp add: said_def)


section \<open>Properties of the backend connector\<close>

subsection \<open>What a run leaves as it was\<close>

lemma keeps_and_then:
  assumes "keeps f m" and "\<And>x. keeps f (k x)"
  shows "keeps f (and_then m k)"
  unfolding keeps_def
proof
  fix s
  obtain r s' where ms: "m s = (r, s')"
    by (cases "m s")
  from assms(1) have "f (snd (m s)) = f s"
    unfolding keeps_def by (rule spec)
  with ms have "f s' = f s"
    by simp
  with assms(2) ms show "f (snd (and_then m k s)) = f s"
    by (cases r) (simp_all add: and_then_def keeps_def)
qed

lemma keeps_try_catch:
  assumes "keeps f m" and "\<And>e. keeps f (handler e)"
  shows "keeps f (try_catch m handler)"
  unfolding keeps_def
proof
  fix s
  obtain r s' where ms: "m s = (r, s')"
    by (cases "m s")
  from assms(1) have "f (snd (m s)) = f s"
    unfolding keeps_def by (rule spec)
  with ms have "f s' = f s"
    by simp
  with assms(2) ms show "f (snd (try_catch m handler s)) = f s"
    by (cases r) (simp_all add: try_catch_def keeps_def)
qed

lemma keeps_lift: "keeps f (lift r)"
  by (simp add: keeps_def lift_def)

lemma keeps_ret: "keeps f (ret x)"
  by (simp add: keeps_def ret_def)

lemma keeps_this_service: "keeps f this_service"
  by (simp add: keeps_def this_service_def)

lemma keeps_if: "(c \<Longrightarrow> keeps f a) \<Longrightarrow> (\<not> c \<Longrightarrow> keeps f b) \<Longrightarrow> keeps f (if c then a else b)"
  by simp

lemmas keeps_combinators = keeps_and_then keeps_try_catch keeps_lift keeps_ret keeps_this_service keeps_if

text \<open>No run replaces the registered log callback.\<close>

lemma slot_call_back: "keeps (\<lambda>s. logCallback (self s)) (call_back e outcome)"
  by (simp add: keeps_def call_back_def)

lemma slot_emit: "keeps (\<lambda>s. logCallback (self s)) (emit e)"
  by (simp add: keeps_def emit_def)

lemma slot_await_fetch: "keeps (\<lambda>s. logCallback (self s)) (await_fetch env req)"
  by (simp add: keeps_def await_fetch_def)

lemma slot_log_line: "keeps (\<lambda>s. logCallback (self s)) (log_line env m)"
  by (auto simp add: keeps_def log_line_def call_back_def Let_def split: option.splits sum.splits)

lemma slot_new_WebSocket: "keeps (\<lambda>s. logCallback (self s)) (new_WebSocket env u)"
  by (auto simp add: keeps_def new_WebSocket_def split: option.splits)

lemmas slot_intros = keeps_combinators slot_call_back slot_emit slot_await_fetch slot_log_line slot_new_WebSocket

lemma log_line_errors:
  "fst (log_line env (JStr m) s) = Inl e \<Longrightarrow> thrown_by_log_callback s e"
  by (auto simp add: log_line_def call_back_def template_def Let_def thrown_by_log_callback_def
      split: option.splits)


subsection \<open>Errors that reach the caller\<close>













subsection \<open>Runs with a log callback that returns normally\<close>

lemma log_line_sound:
  "log_callback_sound s \<Longrightarrow> log_line env (JStr m) s = (Inr (), logged env m s)"
  by (auto simp add: log_line_def logged_def call_back_def template_def Let_def log_callback_sound_def
      split: option.splits)

lemma sound_logged [simp]: "log_callback_sound (logged env m s) = log_callback_sound s"
  by (simp add: logged_def log_callback_sound_def split: option.splits)

lemma sound_trace [simp]: "log_callback_sound (s\<lparr>trace := t\<rparr>) = log_callback_sound s"
  by (simp add: log_callback_sound_def)











subsection \<open>Outbound operations against a failing backend\<close>




subsection \<open>Login without a password\<close>

lemma network_log_line: "keeps network_calls (log_line env m)"
  by (auto simp add: keeps_def log_line_def call_back_def network_calls_def Let_def
      split: option.splits sum.splits)

lemma login_guard:
  assumes "password = None \<or> password = Some []"
  shows "login env botId username password
           = and_then (log_line env (JStr (''['' @ username @ ''] Login failed: Password is required.'')))
               (\<lambda>_. ret False)"
  using assms by (auto simp add: login_def Let_def)

text \<open>
  Claim C6 says that \<open>login\<close> with an empty or undefined password always returns
  \<^verbatim>\<open>false\<close>. The guard logs before it returns, outside any \<^verbatim>\<open>try\<close>: with a log callback
  that throws, \<open>login\<close> rejects with the callback's error.
\<close>

theorem login_without_password_log_callback_throws:
  "fst (login env_refusing ''bot1'' ''bob'' (Some []) imvu_log_throws)
     = Inl (JsError ''Error'' ''log sink closed'')
   \<and> fst (login env_refusing ''bot1'' ''bob'' None imvu_log_throws)
       = Inl (JsError ''Error'' ''log sink closed'')"
  by (simp add: login_def prog_defs imvu_defs template_def imvu_log_throws_def imvu_start_def onLog_def)

text \<open>
  Claim C6, amended: with a password that is \<^verbatim>\<open>undefined\<close> or empty, for every bot
  identifier and user name, the run of \<open>login\<close> performs no \<^verbatim>\<open>fetch\<close> (the network calls
  of the trace are those made before); it returns \<^verbatim>\<open>false\<close> provided the registered log
  callback, if there is one, returns normally, and otherwise it either returns \<^verbatim>\<open>false\<close>
  or lets through the error the log callback threw.
\<close>

theorem login_without_password:
  assumes "password = None \<or> password = Some []"
  shows "network_calls (snd (login env botId username password s)) = network_calls s
         \<and> (log_callback_sound s \<longrightarrow> fst (login env botId username password s) = Inr False)
         \<and> (fst (login env botId username password s) = Inr False
             \<or> (\<exists>e. fst (login env botId username password s) = Inl e \<and> thrown_by_log_callback s e))"
proof -
  let ?line = "JStr (''['' @ username @ ''] Login failed: Password is required.'')"
  note guard = login_guard [OF assms, of env botId username]
  obtain r s' where l: "log_line env ?line s = (r, s')"
    by (cases "log_line env ?line s")
  from network_log_line [of env ?line] have "network_calls (snd (log_line env ?line s)) = network_calls s"
    unfolding keeps_def by (rule spec)
  with l have net: "network_calls (snd (login env botId username password s)) = network_calls s"
    by (cases r) (simp_all add: guard and_then_def ret_def)
  have sound: "log_callback_sound s \<longrightarrow> fst (login env botId username password s) = Inr False"
    by (simp add: guard and_then_def ret_def log_line_sound)
  have either: "fst (login env botId username password s) = Inr False
      \<or> (\<exists>e. fst (login env botId username password s) = Inl e \<and> thrown_by_log_callback s e)"
  proof (cases r)
    case (Inl e)
    with l have "fst (log_line env ?line s) = Inl e"
      by simp
    then have "thrown_by_log_callback s e"
      by (rule log_line_errors)
    moreover from l Inl have "fst (login env botId username password s) = Inl e"
      by (simp add: guard and_then_def)
    ultimately show ?thesis
      by blast
  next
    case (Inr u)
    with l show ?thesis
      by (simp add: guard and_then_def ret_def)
  qed
  from net sound either show ?thesis
    by blast
qed

theorem login_without_password_witness:
  "(Some [] = None \<or> Some [] = Some ([] :: string))
   \<and> log_callback_sound imvu_start
   \<and> fst (login env_refusing ''bot1'' ''bob'' (Some []) imvu_start) = Inr False
   \<and> network_calls (snd (login env_refusing ''bot1'' ''bob'' (Some []) imvu_start)) = []
   \<and> fst (login env_refusing ''bot1'' ''bob'' None imvu_start) = Inr False
   \<and> network_calls (snd (login env_refusing ''bot1'' ''bob'' None imvu_start)) = []
   \<and> network_calls (snd (login env_refusing ''bot1'' ''bob'' None imvu_log_throws)) = []"
proof -
  have e: "Some [] = None \<or> Some [] = Some ([] :: string)"
    by simp
  have n: "(None :: string option) = None \<or> None = Some ([] :: string)"
    by simp
  have sound: "log_callback_sound imvu_start"
    by (simp add: log_callback_sound_def imvu_start_def)
  from login_without_password [OF e, of env_refusing "''bot1''" "''bob''" imvu_start]
    login_without_password [OF n, of env_refusing "''bot1''" "''bob''" imvu_start]
    login_without_password [OF n, of env_refusing "''bot1''" "''bob''" imvu_log_throws]
    sound
  show ?thesis
    by (simp add: network_calls_def imvu_start_def imvu_log_throws_def onLog_def)
qed

subsection \<open>Reconnecting after the channel closes\<close>

lemma keeps_case_option:
  "keeps f a \<Longrightarrow> (\<And>x. keeps f (b x)) \<Longrightarrow> keeps f (case opt of None \<Rightarrow> a | Some x \<Rightarrow> b x)"
  by (cases opt) simp_all

lemma timer_call_back: "(\<And>t d. e \<noteq> SetTimeout t d) \<Longrightarrow> keeps scheduled_reconnects (call_back e outcome)"
  by (cases e) (auto simp add: keeps_def call_back_def scheduled_reconnects_def)

lemma timer_emit: "(\<And>t d. e \<noteq> SetTimeout t d) \<Longrightarrow> keeps scheduled_reconnects (emit e)"
  by (cases e) (auto simp add: keeps_def emit_def scheduled_reconnects_def)

lemma timer_log_line: "keeps scheduled_reconnects (log_line env m)"
  by (auto simp add: keeps_def log_line_def call_back_def scheduled_reconnects_def Let_def
      split: option.splits sum.splits)

lemma timer_new_WebSocket: "keeps scheduled_reconnects (new_WebSocket env u)"
  by (auto simp add: keeps_def new_WebSocket_def scheduled_reconnects_def split: option.splits)

lemmas timer_intros = keeps_combinators keeps_case_option timer_call_back timer_emit timer_log_line
  timer_new_WebSocket

lemma timer_onmessage: "keeps scheduled_reconnects (ws_onmessage env d)"
  unfolding ws_onmessage_def by (intro timer_intros) simp_all

lemma timer_onopen: "keeps scheduled_reconnects (ws_onopen env)"
  unfolding ws_onopen_def by (rule timer_log_line)

lemma timer_onerror: "keeps scheduled_reconnects (ws_onerror env e)"
  unfolding ws_onerror_def by (intro timer_intros) simp

lemma timer_connectWebSocket: "keeps scheduled_reconnects (connectWebSocket env)"
  unfolding connectWebSocket_def
  by (intro timer_intros) (simp_all add: keeps_def scheduled_reconnects_def)

lemma slot_onmessage: "keeps (\<lambda>s. logCallback (self s)) (ws_onmessage env d)"
  unfolding ws_onmessage_def by (intro slot_intros keeps_case_option)

lemma slot_onopen: "keeps (\<lambda>s. logCallback (self s)) (ws_onopen env)"
  unfolding ws_onopen_def by (rule slot_log_line)

lemma slot_onerror: "keeps (\<lambda>s. logCallback (self s)) (ws_onerror env e)"
  unfolding ws_onerror_def by (intro slot_intros)

lemma slot_onclose: "keeps (\<lambda>s. logCallback (self s)) (ws_onclose env)"
  unfolding ws_onclose_def by (intro slot_intros)

lemma slot_connectWebSocket: "keeps (\<lambda>s. logCallback (self s)) (connectWebSocket env)"
  unfolding connectWebSocket_def
  by (intro slot_intros) (simp_all add: keeps_def)

lemma slot_deliver: "keeps (\<lambda>s. logCallback (self s)) (deliver env ev)"
  by (cases ev) (simp_all add: deliver_def slot_onmessage slot_onopen slot_onerror slot_onclose
      slot_connectWebSocket)

lemma sound_deliver: "log_callback_sound (snd (deliver env ev s)) = log_callback_sound s"
proof -
  from slot_deliver [of env ev] have "logCallback (self (snd (deliver env ev s))) = logCallback (self s)"
    unfolding keeps_def by (rule spec)
  then show ?thesis
    by (simp add: log_callback_sound_def)
qed

lemma timers_logged [simp]: "scheduled_reconnects (logged env m s) = scheduled_reconnects s"
  by (simp add: logged_def scheduled_reconnects_def split: option.splits)

lemma onclose_schedules:
  "log_callback_sound s \<Longrightarrow>
   ws_onclose env s
     = (Inr (), (logged env ''[WebSocket] Disconnected from backend. Reconnecting in 3s...'' s)
                  \<lparr>trace := trace (logged env ''[WebSocket] Disconnected from backend. Reconnecting in 3s...'' s)
                            @ [SetTimeout Reconnect 3000]\<rparr>)"
  by (simp add: ws_onclose_def and_then_def emit_def log_line_sound)

lemma onclose_schedules_one:
  assumes "log_callback_sound s"
  shows "\<exists>s'. ws_onclose env s = (Inr (), s')
          \<and> scheduled_reconnects s' = scheduled_reconnects s @ [SetTimeout Reconnect 3000]"
proof -
  have "scheduled_reconnects
          ((logged env ''[WebSocket] Disconnected from backend. Reconnecting in 3s...'' s)
             \<lparr>trace := trace (logged env ''[WebSocket] Disconnected from backend. Reconnecting in 3s...'' s)
                        @ [SetTimeout Reconnect 3000]\<rparr>)
        = scheduled_reconnects (logged env ''[WebSocket] Disconnected from backend. Reconnecting in 3s...'' s)
            @ [SetTimeout Reconnect 3000]"
    by (simp add: scheduled_reconnects_def)
  with onclose_schedules [OF assms, of env] show ?thesis
    by simp
qed

lemma onclose_throws:
  assumes "fst (ws_onclose env s) = Inl e"
  shows "thrown_by_log_callback s e \<and> scheduled_reconnects (snd (ws_onclose env s)) = scheduled_reconnects s"
proof -
  let ?line = "JStr ''[WebSocket] Disconnected from backend. Reconnecting in 3s...''"
  obtain r s' where l: "log_line env ?line s = (r, s')"
    by (cases "log_line env ?line s")
  from assms l have r: "r = Inl e"
    by (cases r) (simp_all add: ws_onclose_def and_then_def emit_def)
  with l have "fst (log_line env ?line s) = Inl e"
    by simp
  then have "thrown_by_log_callback s e"
    by (rule log_line_errors)
  moreover from timer_log_line [of env ?line] have "scheduled_reconnects (snd (log_line env ?line s)) = scheduled_reconnects s"
    unfolding keeps_def by (rule spec)
  with l r have "scheduled_reconnects (snd (ws_onclose env s)) = scheduled_reconnects s"
    by (simp add: ws_onclose_def and_then_def)
  ultimately show ?thesis
    by simp
qed

lemma onclose_at_most_one:
  "scheduled_reconnects (snd (ws_onclose env s)) = scheduled_reconnects s
   \<or> scheduled_reconnects (snd (ws_onclose env s)) = scheduled_reconnects s @ [SetTimeout Reconnect 3000]"
proof -
  let ?line = "JStr ''[WebSocket] Disconnected from backend. Reconnecting in 3s...''"
  obtain r s' where l: "log_line env ?line s = (r, s')"
    by (cases "log_line env ?line s")
  from timer_log_line [of env ?line] have "scheduled_reconnects (snd (log_line env ?line s)) = scheduled_reconnects s"
    unfolding keeps_def by (rule spec)
  with l have "scheduled_reconnects s' = scheduled_reconnects s"
    by simp
  with l show ?thesis
    by (cases r) (simp_all add: ws_onclose_def and_then_def emit_def scheduled_reconnects_def)
qed

lemma deliver_schedules:
  assumes "log_callback_sound s"
  shows "scheduled_reconnects (snd (deliver env ev s))
     = scheduled_reconnects s @ (if ev = Closed then [SetTimeout Reconnect 3000] else [])"
proof (cases ev)
  case Closed
  with onclose_schedules_one [OF assms, of env] show ?thesis
    by (auto simp add: deliver_def)
next
  case Opened
  with timer_onopen [of env] show ?thesis
    by (simp add: deliver_def keeps_def)
next
  case (Frame d)
  with timer_onmessage [of env d] show ?thesis
    by (simp add: deliver_def keeps_def)
next
  case (Errored e)
  with timer_onerror [of env e] show ?thesis
    by (simp add: deliver_def keeps_def)
next
  case TimerExpired
  with timer_connectWebSocket [of env] show ?thesis
    by (simp add: deliver_def keeps_def)
qed

lemma deliver_all_schedules:
  "log_callback_sound s \<Longrightarrow>
   scheduled_reconnects (deliver_all env events s)
     = scheduled_reconnects s @ replicate (count_list events Closed) (SetTimeout Reconnect 3000)"
  by (induction events arbitrary: s) (simp_all add: deliver_schedules sound_deliver replicate_append_same)

text \<open>
  Claim C8 says that every close of the channel schedules a reconnect. The close
  handler logs before it calls \<^verbatim>\<open>setTimeout\<close>: with a log callback that throws, the
  handler ends at the log line and no timer is scheduled.
\<close>

theorem close_log_callback_throws_no_reconnect:
  "fst (ws_onclose env_offline imvu_log_throws) = Inl (JsError ''Error'' ''log sink closed'')
   \<and> scheduled_reconnects (snd (ws_onclose env_offline imvu_log_throws)) = []"
  by (simp add: ws_onclose_def prog_defs imvu_defs template_def scheduled_reconnects_def
      imvu_log_throws_def imvu_start_def onLog_def)

text \<open>
  Claim C8, amended: provided the registered log callback, if there is one, returns
  normally, the close handler returns normally and schedules exactly one timer, the
  reconnect after 3000 milliseconds, and nothing in the state limits how often: after
  any sequence of channel events and timer expiries the timers scheduled are one
  reconnect after 3000 milliseconds for each close event of the sequence, and no other.
  Whatever the callback does, one close never schedules more than one reconnect; and
  when the handler ends with an error, the log callback threw it and that close has
  scheduled none.
\<close>

theorem close_schedules_one_reconnect:
  "(log_callback_sound s \<longrightarrow>
      (\<exists>s'. ws_onclose env s = (Inr (), s')
            \<and> scheduled_reconnects s' = scheduled_reconnects s @ [SetTimeout Reconnect 3000])
      \<and> scheduled_reconnects (deliver_all env events s)
          = scheduled_reconnects s @ replicate (count_list events Closed) (SetTimeout Reconnect 3000))
   \<and> (scheduled_reconnects (snd (ws_onclose env s)) = scheduled_reconnects s
        \<or> scheduled_reconnects (snd (ws_onclose env s))
            = scheduled_reconnects s @ [SetTimeout Reconnect 3000])
   \<and> (\<forall>e. fst (ws_onclose env s) = Inl e \<longrightarrow>
          thrown_by_log_callback s e
          \<and> scheduled_reconnects (snd (ws_onclose env s)) = scheduled_reconnects s)"
  using onclose_schedules_one [of s env] deliver_all_schedules [of s env events]
    onclose_at_most_one [of env s] onclose_throws [of env s]
  by blast

theorem close_schedules_one_reconnect_witness:
  "log_callback_sound imvu_start
   \<and> scheduled_reconnects (deliver_all env_offline [Closed, TimerExpired, Opened, Frame ''{}'', Closed] imvu_start)
       = [SetTimeout Reconnect 3000, SetTimeout Reconnect 3000]
   \<and> fst (ws_onclose env_offline imvu_start) = Inr ()
   \<and> scheduled_reconnects (snd (ws_onclose env_offline imvu_start)) = [SetTimeout Reconnect 3000]"
proof -
  have sound: "log_callback_sound imvu_start"
    by (simp add: log_callback_sound_def imvu_start_def)
  have none: "scheduled_reconnects imvu_start = []"
    by (simp add: scheduled_reconnects_def imvu_start_def)
  from close_schedules_one_reconnect
         [of imvu_start env_offline "[Closed, TimerExpired, Opened, Frame ''{}'', Closed]"]
    sound none
  show ?thesis
    by (auto simp add: numeral_2_eq_2)
qed

subsection \<open>Frames of an unknown type\<close>

text \<open>
  Claim C9 says that every well-formed JSON frame whose type is none of the four is
  ignored without an error. The frame \<^verbatim>\<open>null\<close> is well-formed JSON and has none of
  the four types, and on it the read \<^verbatim>\<open>data.type\<close> throws a TypeError out of the
  handler.
\<close>

theorem null_frame_throws:
  "JSON_parse env_offline ''null'' = Inr JsonNull
   \<and> fst (ws_onmessage env_offline ''null'' imvu_start)
       = Inl (JsError ''TypeError'' ''Cannot read properties of null, reading type'')"
  by (simp add: env_offline_def ws_onmessage_def prog_defs parse_frame_def get_prop_def)

text \<open>
  Claim C9, amended: when the frame is well-formed JSON other than the literal
  \<^verbatim>\<open>null\<close> and the type read from it is none of \<^verbatim>\<open>message\<close>, \<^verbatim>\<open>user_joined\<close>,
  \<^verbatim>\<open>user_left\<close> and \<^verbatim>\<open>log\<close> (a frame without a type reads as \<^verbatim>\<open>undefined\<close>), the
  message handler returns normally and leaves the state as it was: no callback is
  called, and the slots and the channel handle are unchanged.
\<close>

theorem unknown_frame_ignored:
  assumes "JSON_parse env frame = Inr data"
    and "data \<noteq> JsonNull"
    and "get_prop (of_json data) ''type''
           \<notin> {Inr (JStr ''message''), Inr (JStr ''user_joined''), Inr (JStr ''user_left''), Inr (JStr ''log'')}"
  shows "ws_onmessage env frame s = (Inr (), s)
         \<and> callback_calls (snd (ws_onmessage env frame s)) = callback_calls s
         \<and> self (snd (ws_onmessage env frame s)) = self s"
proof -
  from assms(2) obtain tag where tag: "get_prop (of_json data) ''type'' = Inr tag"
    by (cases data) (simp_all add: get_prop_def)
  with assms(3) have "tag \<noteq> JStr ''message''" "tag \<noteq> JStr ''user_joined''"
    "tag \<noteq> JStr ''user_left''" "tag \<noteq> JStr ''log''"
    by auto
  with assms(1) tag have "ws_onmessage env frame s = (Inr (), s)"
    by (simp add: ws_onmessage_def prog_defs parse_frame_def this_service_def)
  then show ?thesis
    by simp
qed

theorem unknown_frame_ignored_witness:
  "JSON_parse env_offline ''{\"type\":\"ping\"}'' = Inr (JsonObj [(''type'', JsonStr ''ping'')])
   \<and> JsonObj [(''type'', JsonStr ''ping'')] \<noteq> JsonNull
   \<and> get_prop (of_json (JsonObj [(''type'', JsonStr ''ping'')])) ''type'' = Inr (JStr ''ping'')
   \<and> ws_onmessage env_offline ''{\"type\":\"ping\"}'' imvu_start = (Inr (), imvu_start)"
proof -
  have p: "JSON_parse env_offline ''{\"type\":\"ping\"}'' = Inr (JsonObj [(''type'', JsonStr ''ping'')])"
    by (simp add: env_offline_def)
  have n: "JsonObj [(''type'', JsonStr ''ping'')] \<noteq> JsonNull"
    by simp
  have g: "get_prop (of_json (JsonObj [(''type'', JsonStr ''ping'')])) ''type'' = Inr (JStr ''ping'')"
    by (simp add: get_prop_def)
  then have t: "get_prop (of_json (JsonObj [(''type'', JsonStr ''ping'')])) ''type''
           \<notin> {Inr (JStr ''message''), Inr (JStr ''user_joined''), Inr (JStr ''user_left''), Inr (JStr ''log'')}"
    by simp
  from unknown_frame_ignored [OF p n t, of imvu_start] p n g show ?thesis
    by blast
qed

end
